theory Spec2Isabelle
  imports Main
begin

section \<open>JavaScript values\<close>

text \<open>
  The two programs are \<^verbatim>\<open>src/local-test-two-networks.js\<close> (the local script for the
  networks Chronos and mainnet) and \<^verbatim>\<open>src/unnamed/part_000\<close> (the scheduled serverless
  handler).  Both scrape node counts from a telemetry page, fetch a pledged-space value
  and append one row per network to a spreadsheet.

  A number produced by \<^verbatim>\<open>parseInt\<close> is either \<^verbatim>\<open>NaN\<close> or an integer.  \<open>Num n\<close> stands for
  the double that JavaScript computes for the integer \<open>n\<close> (exact up to \<open>2^53\<close>; the sign
  of zero is not kept).
\<close>

datatype jsnum = NaN | Num int

datatype jsval = Null | Undefined | Number jsnum | Str string | BigInt int

text \<open>A thrown value: a \<^verbatim>\<open>TypeError\<close> raised by the language itself, or the error with
  which an external service rejected a request.\<close>

datatype error = TypeError string | Rejected string

subsection \<open>\<^verbatim>\<open>String.prototype.trim\<close> and \<^verbatim>\<open>parseInt\<close>\<close>

text \<open>Strings are byte strings here; the white space of JavaScript that fits in a byte
  is tab, line feed, vertical tab, form feed, carriage return, space and no-break space.\<close>

definition isWhiteSpace :: "char \<Rightarrow> bool" where
  "isWhiteSpace c \<longleftrightarrow>
     c = CHR 0x09 \<or> c = CHR 0x0A \<or> c = CHR 0x0B \<or> c = CHR 0x0C \<or> c = CHR 0x0D \<or>
     c = CHR 0x20 \<or> c = CHR 0xA0"

definition trim :: "string \<Rightarrow> string" where
  "trim s = rev (dropWhile isWhiteSpace (rev (dropWhile isWhiteSpace s)))"

text \<open>The value of a character as a digit: \<^verbatim>\<open>0-9\<close>, then \<^verbatim>\<open>a-z\<close> and \<^verbatim>\<open>A-Z\<close> for 10 to 35.\<close>

definition digitValue :: "char \<Rightarrow> nat option" where
  "digitValue c =
     (let k = (of_char c :: nat) in
      if 48 \<le> k \<and> k \<le> 57 then Some (k - 48)
      else if 97 \<le> k \<and> k \<le> 122 then Some (k - 87)
      else if 65 \<le> k \<and> k \<le> 90 then Some (k - 55)
      else None)"

definition isRadixDigit :: "nat \<Rightarrow> char \<Rightarrow> bool" where
  "isRadixDigit R c = (case digitValue c of None \<Rightarrow> False | Some d \<Rightarrow> d < R)"

definition radixValue :: "nat \<Rightarrow> string \<Rightarrow> nat" where
  "radixValue R Z = foldl (\<lambda>acc c. acc * R + (case digitValue c of None \<Rightarrow> 0 | Some d \<Rightarrow> d)) 0 Z"

text \<open>
  \<^verbatim>\<open>parseInt(string)\<close> with no radix argument: leading white space is skipped, one sign is
  read, a prefix \<^verbatim>\<open>0x\<close> or \<^verbatim>\<open>0X\<close> selects radix 16, and the longest run of digits is the
  value; with no digit the result is \<^verbatim>\<open>NaN\<close>.
\<close>

definition parseInt :: "string \<Rightarrow> jsnum" where
  "parseInt inputString =
     (let S = dropWhile isWhiteSpace inputString;
          negative = (take 1 S = ''-'');
          S1 = (if take 1 S = ''+'' \<or> take 1 S = ''-'' then drop 1 S else S);
          hex = (take 2 S1 = ''0x'' \<or> take 2 S1 = ''0X'');
          R = (if hex then 16 else 10);
          S2 = (if hex then drop 2 S1 else S1);
          Z = takeWhile (isRadixDigit R) S2
      in if Z = [] then NaN
         else if negative then Num (- int (radixValue R Z))
         else Num (int (radixValue R Z)))"

text \<open>\<^verbatim>\<open>parseInt\<close> of a value that is a string or \<^verbatim>\<open>null\<close>: the argument is first turned
  into a string, and \<^verbatim>\<open>null\<close> becomes the string \<^verbatim>\<open>"null"\<close>.\<close>

definition parseIntOf :: "string option \<Rightarrow> jsnum" where
  "parseIntOf v = (case v of None \<Rightarrow> parseInt ''null'' | Some s \<Rightarrow> parseInt s)"

subsection \<open>\<^verbatim>\<open>toString\<close>\<close>

fun digits :: "nat \<Rightarrow> string" where
  "digits n = (if n < 10 then [''0123456789'' ! n]
               else digits (n div 10) @ [''0123456789'' ! (n mod 10)])"

definition decimal :: "int \<Rightarrow> string" where
  "decimal i = (if i < 0 then CHR ''-'' # digits (nat (- i)) else digits (nat i))"

text \<open>The method call \<^verbatim>\<open>v.toString()\<close>: it raises a \<^verbatim>\<open>TypeError\<close> on \<^verbatim>\<open>null\<close> and
  \<^verbatim>\<open>undefined\<close>.  A string is itself and a big integer is printed in decimal, digit by
  digit.  A number is printed in decimal too; that is what JavaScript prints as long as
  the magnitude is below \<open>2^53\<close>.  From there on JavaScript prints the shortest digits
  that read back as the same double, and from \<open>10^21\<close> an exponent, which this function
  does not follow: \<open>exactToString\<close> marks the values on which it is exact, and what is
  stated below about printed values is stated for those.\<close>

definition toString :: "jsval \<Rightarrow> error + string" where
  "toString v =
     (case v of
        Null \<Rightarrow> Inl (TypeError ''Cannot read properties of null'')
      | Undefined \<Rightarrow> Inl (TypeError ''Cannot read properties of undefined'')
      | Number NaN \<Rightarrow> Inr ''NaN''
      | Number (Num n) \<Rightarrow> Inr (decimal n)
      | Str s \<Rightarrow> Inr s
      | BigInt n \<Rightarrow> Inr (decimal n))"


section \<open>The page and the snapshot\<close>

text \<open>
  The rendered page is seen through two lookups only: \<^verbatim>\<open>document.querySelector\<close> and
  \<^verbatim>\<open>document.evaluate\<close> with \<^verbatim>\<open>FIRST_ORDERED_NODE_TYPE\<close>.  Each gives the
  \<^verbatim>\<open>textContent\<close> of the first matching element, or nothing when no element matches.
\<close>

record document =
  querySelector :: "string \<Rightarrow> string option"
  xpathFirst :: "string \<Rightarrow> string option"

record stats =
  nodeCount :: jsval
  subspaceNodeCount :: jsval
  spaceAcresNodeCount :: jsval
  linuxNodeCount :: jsval
  windowsNodeCount :: jsval
  macosNodeCount :: jsval

definition markerSelector :: string where
  "markerSelector = ''.Chains-chain-selected''"

definition nodeCountSelector :: string where
  "nodeCountSelector = ''.Chains-chain-selected .Chains-node-count''"

definition subspaceSelector :: string where
  "subspaceSelector = ''#root > div > div.Chain > div.Chain-content-container > div > div > div:nth-child(2) > table > tbody > tr:nth-child(1) > td.Stats-count''"

definition spaceAcresSelector :: string where
  "spaceAcresSelector = ''#root > div > div.Chain > div.Chain-content-container > div > div > div:nth-child(2) > table > tbody > tr:nth-child(2) > td.Stats-count''"

definition clickXPath :: string where
  \<open>clickXPath = ''//*[@id="root"]/div/div[2]/div[1]/div[6]/div[3]''\<close>

definition linuxXPath :: string where
  \<open>linuxXPath = ''//*[@id="root"]/div/div[2]/div[2]/div/div/div[3]/table/tbody/tr[1]/td[2]''\<close>

definition windowsXPath :: string where
  \<open>windowsXPath = ''//*[@id="root"]/div/div[2]/div[2]/div/div/div[3]/table/tbody/tr[2]/td[2]''\<close>

definition macosXPath :: string where
  \<open>macosXPath = ''//*[@id="root"]/div/div[2]/div[2]/div/div/div[3]/table/tbody/tr[3]/td[2]''\<close>

text \<open>\<^verbatim>\<open>getTextBySelector\<close> and \<^verbatim>\<open>getTextByXPath\<close>, the same in both programs:
  \<^verbatim>\<open>element ? element.textContent.trim() : null\<close>.\<close>

definition getTextBySelector :: "document \<Rightarrow> string \<Rightarrow> string option" where
  "getTextBySelector d selector =
     (case querySelector d selector of None \<Rightarrow> None | Some t \<Rightarrow> Some (trim t))"

definition getTextByXPath :: "document \<Rightarrow> string \<Rightarrow> string option" where
  "getTextByXPath d xpath =
     (case xpathFirst d xpath of None \<Rightarrow> None | Some t \<Rightarrow> Some (trim t))"

text \<open>The node count, the same in both programs:
  \<^verbatim>\<open>element ? parseInt(element.textContent) : null\<close>.\<close>

definition readNodeCount :: "document \<Rightarrow> jsval" where
  "readNodeCount d =
     (case querySelector d nodeCountSelector of None \<Rightarrow> Null | Some t \<Rightarrow> Number (parseInt t))"

text \<open>The page function of \<^verbatim>\<open>scrapePageData\<close> (local script, lines 77 to 113): the five
  other fields are \<^verbatim>\<open>parseInt(getText...(...))\<close>, applied to the text or to \<^verbatim>\<open>null\<close>.\<close>

definition extractStats_local :: "document \<Rightarrow> stats" where
  "extractStats_local d =
     \<lparr> nodeCount = readNodeCount d,
       subspaceNodeCount = Number (parseIntOf (getTextBySelector d subspaceSelector)),
       spaceAcresNodeCount = Number (parseIntOf (getTextBySelector d spaceAcresSelector)),
       linuxNodeCount = Number (parseIntOf (getTextByXPath d linuxXPath)),
       windowsNodeCount = Number (parseIntOf (getTextByXPath d windowsXPath)),
       macosNodeCount = Number (parseIntOf (getTextByXPath d macosXPath)) \<rparr>"

text \<open>The page function of the serverless handler (lines 89 to 123): the five other fields
  are \<^verbatim>\<open>text ? parseInt(text) : null\<close>; \<^verbatim>\<open>null\<close> and the empty string are falsy.\<close>

definition parseOrNull :: "string option \<Rightarrow> jsval" where
  "parseOrNull v =
     (case v of None \<Rightarrow> Null | Some s \<Rightarrow> if s = [] then Null else Number (parseInt s))"

definition extractStats_serverless :: "document \<Rightarrow> stats" where
  "extractStats_serverless d =
     \<lparr> nodeCount = readNodeCount d,
       subspaceNodeCount = parseOrNull (getTextBySelector d subspaceSelector),
       spaceAcresNodeCount = parseOrNull (getTextBySelector d spaceAcresSelector),
       linuxNodeCount = parseOrNull (getTextByXPath d linuxXPath),
       windowsNodeCount = parseOrNull (getTextByXPath d windowsXPath),
       macosNodeCount = parseOrNull (getTextByXPath d macosXPath) \<rparr>"

section \<open>The outside world\<close>

text \<open>
  Every request to an external service (browser, page, chain client, HTTP endpoint,
  spreadsheet) is numbered in the order in which it is made.  The world says, for the
  request with number \<open>n\<close>, whether it is rejected and with which error, which document an
  evaluation in the page sees, and which pledged-space value a query answers.  \<open>transfer\<close>
  is what \<^verbatim>\<open>page.evaluate\<close> does to a field of the object returned from the page on its
  way to the caller; that is the browser library's business and stays a parameter of the
  world, and \<open>jsonTransfer\<close> below is what the library does.
  \<open>trace\<close> is the list of the requests made so far, each with its rejection if any, and of
  the pauses; \<open>console\<close> is what was logged.  Of the log lines only those that report a
  failure, a skipped step or the click result are kept; progress messages are left out.
\<close>

datatype event =
    ExecutablePath
  | Launch
  | NewPage nat
  | Goto nat string
  | WaitForSelector nat string
  | Screenshot nat string
  | EvaluateClick nat
  | EvaluateStats nat
  | Activate string
  | SpacePledged string
  | HttpGet string
  | Append jsval string "jsval list"
  | Close nat
  | Sleep nat

datatype logmsg =
    TimeoutWaitingForSelector string
  | ChainSelectorNotFound string
  | ClickAttemptFailed string nat
  | FailedToClick string
  | ErrorFetchingSpacePledged string error
  | SkippingAppend string
  | ErrorDetails error
  | NavigationFailed error
  | ClickResult string
  | AttemptFailed nat error

record world =
  fault :: "nat \<Rightarrow> error option"
  dom :: "nat \<Rightarrow> document"
  pledged :: "nat \<Rightarrow> jsval"
  clock :: "nat \<Rightarrow> string"
  transfer :: "jsval \<Rightarrow> jsval"
  env :: "string \<Rightarrow> string option"
  tick :: nat
  trace :: "(event \<times> error option) list"
  console :: "logmsg list"

text \<open>An asynchronous computation: it runs in a world and ends with a thrown error
  (\<open>Inl\<close>) or a value (\<open>Inr\<close>), in the world it leaves behind.\<close>

type_synonym 'a io = "world \<Rightarrow> (error + 'a) \<times> world"

definition ret :: "'a \<Rightarrow> 'a io" where
  "ret x w = (Inr x, w)"

definition throw :: "error \<Rightarrow> 'a io" where
  "throw e w = (Inl e, w)"

definition and_then :: "'a io \<Rightarrow> ('a \<Rightarrow> 'b io) \<Rightarrow> 'b io" where
  "and_then m f w = (case m w of (Inl e, w') \<Rightarrow> (Inl e, w') | (Inr x, w') \<Rightarrow> f x w')"

text \<open>\<^verbatim>\<open>try { m } catch (error) { h(error) }\<close>\<close>

definition try_catch :: "'a io \<Rightarrow> (error \<Rightarrow> 'a io) \<Rightarrow> 'a io" where
  "try_catch m h w = (case m w of (Inl e, w') \<Rightarrow> h e w' | (Inr x, w') \<Rightarrow> (Inr x, w'))"

text \<open>\<^verbatim>\<open>Promise.all([m1, m2])\<close>: both computations are started and both run; the result
  is the pair of their values, or an error if one of them threw.  The model runs the first
  to its end and then the second, and of two errors reports that of the first.  That is
  one of the schedules the two tasks can have: in JavaScript their requests may
  interleave, the error reported is the one thrown first in time, and the task that is
  left over goes on while the caller handles the error.  What is proved below about whole
  runs speaks of what does not depend on the schedule: whether an error comes out, how
  often the browser is launched and closed, and which rows are appended once both
  computations have returned.\<close>

definition promise_all :: "'a io \<Rightarrow> 'b io \<Rightarrow> ('a \<times> 'b) io" where
  "promise_all m1 m2 w =
     (case m1 w of (r1, w1) \<Rightarrow>
        (case m2 w1 of (r2, w2) \<Rightarrow>
           (case r1 of
              Inl e \<Rightarrow> (Inl e, w2)
            | Inr a \<Rightarrow> (case r2 of Inl e \<Rightarrow> (Inl e, w2) | Inr b \<Rightarrow> (Inr (a, b), w2)))))"

text \<open>A request to an external service: it is recorded, the request counter advances, and
  it is rejected or answered as the world says.\<close>

definition advance :: "event \<Rightarrow> world \<Rightarrow> world" where
  "advance ev w = w\<lparr>tick := Suc (tick w), trace := trace w @ [(ev, fault w (tick w))]\<rparr>"

definition request :: "event \<Rightarrow> (world \<Rightarrow> 'a) \<Rightarrow> 'a io" where
  "request ev answer w =
     (case fault w (tick w) of
        Some e \<Rightarrow> (Inl e, advance ev w)
      | None \<Rightarrow> (Inr (answer w), advance ev w))"

text \<open>\<^verbatim>\<open>await new Promise(resolve => setTimeout(resolve, ms))\<close>\<close>

definition sleep :: "nat \<Rightarrow> unit io" where
  "sleep ms w = (Inr (), w\<lparr>trace := trace w @ [(Sleep ms, None)]\<rparr>)"

definition console_log :: "logmsg \<Rightarrow> unit io" where
  "console_log msg w = (Inr (), w\<lparr>console := console w @ [msg]\<rparr>)"

text \<open>\<^verbatim>\<open>new Date().toISOString()\<close>\<close>

definition isoNow :: "string io" where
  "isoNow w = (Inr (clock w (tick w)), w)"

definition transferStats :: "(jsval \<Rightarrow> jsval) \<Rightarrow> stats \<Rightarrow> stats" where
  "transferStats t s =
     \<lparr> nodeCount = t (nodeCount s),
       subspaceNodeCount = t (subspaceNodeCount s),
       spaceAcresNodeCount = t (spaceAcresNodeCount s),
       linuxNodeCount = t (linuxNodeCount s),
       windowsNodeCount = t (windowsNodeCount s),
       macosNodeCount = t (macosNodeCount s) \<rparr>"

text \<open>The object that a page function returns reaches the caller of \<^verbatim>\<open>page.evaluate\<close> by
  value, written as JSON by the browser's debugging protocol.  JSON has no \<^verbatim>\<open>NaN\<close>: a
  field that is \<^verbatim>\<open>NaN\<close> in the page arrives as \<^verbatim>\<open>null\<close>.  Integers and \<^verbatim>\<open>null\<close> arrive as
  they are; the page functions here produce nothing else.\<close>

fun jsonTransfer :: "jsval \<Rightarrow> jsval" where
  "jsonTransfer (Number NaN) = Null"
| "jsonTransfer v = v"

text \<open>\<^verbatim>\<open>page.evaluate\<close> of a page function that returns a snapshot, and of the page function
  that clicks the element found by \<open>clickXPath\<close> and tells whether it found one.\<close>

definition evaluateStats :: "nat \<Rightarrow> (document \<Rightarrow> stats) \<Rightarrow> stats io" where
  "evaluateStats page f =
     request (EvaluateStats page) (\<lambda>w. transferStats (transfer w) (f (dom w (tick w))))"

definition evaluateClick :: "nat \<Rightarrow> bool io" where
  "evaluateClick page =
     request (EvaluateClick page) (\<lambda>w. xpathFirst (dom w (tick w)) clickXPath \<noteq> None)"

section \<open>The local script for two networks\<close>

text \<open>\<^verbatim>\<open>waitForElement\<close> (lines 9 to 17), with the default timeout.\<close>

definition waitForElement :: "nat \<Rightarrow> string \<Rightarrow> bool io" where
  "waitForElement page selector =
     try_catch
       (and_then (request (WaitForSelector page selector) (\<lambda>_. ())) (\<lambda>_. ret True))
       (\<lambda>error. and_then (console_log (TimeoutWaitingForSelector selector)) (\<lambda>_. ret False))"

text \<open>The click loop of \<^verbatim>\<open>scrapePageData\<close> (lines 44 to 67), from loop index \<open>i\<close> on; the
  result is the final value of \<^verbatim>\<open>clickSuccess\<close>.\<close>

function clickLoop :: "nat \<Rightarrow> string \<Rightarrow> nat \<Rightarrow> bool io" where
  "clickLoop page networkName i w =
     (if i < 3 then
        (case evaluateClick page w of
           (Inr found, w') \<Rightarrow> (Inr True, w')
         | (Inl error, w') \<Rightarrow>
             (case and_then (console_log (ClickAttemptFailed networkName (i + 1)))
                     (\<lambda>_. sleep 2000) w' of
                (r, w'') \<Rightarrow> clickLoop page networkName (i + 1) w''))
      else (Inr False, w))"
  by pat_completeness auto
termination
  by (relation "measure (\<lambda>(page, networkName, i, w). 3 - i)") auto

text \<open>\<^verbatim>\<open>scrapePageData\<close> (lines 19 to 117).\<close>

definition scrapePageData :: "nat \<Rightarrow> string \<Rightarrow> string \<Rightarrow> stats io" where
  "scrapePageData page url networkName =
     and_then (request (Goto page url) (\<lambda>_. ())) (\<lambda>_.
     and_then (waitForElement page markerSelector) (\<lambda>chainSelectorPresent.
     and_then (if \<not> chainSelectorPresent then console_log (ChainSelectorNotFound networkName)
               else ret ()) (\<lambda>_.
     and_then (sleep 10000) (\<lambda>_.
     and_then (request (Screenshot page (networkName @ ''_debug.png'')) (\<lambda>_. ())) (\<lambda>_.
     and_then (clickLoop page networkName 0) (\<lambda>clickSuccess.
     and_then (if \<not> clickSuccess then console_log (FailedToClick networkName)
               else ret ()) (\<lambda>_.
     and_then (sleep 5000) (\<lambda>_.
     evaluateStats page extractStats_local))))))))"

text \<open>\<^verbatim>\<open>getSpacePledgedData\<close> (lines 119 to 137).  Without a matching branch the function
  falls off its end and its value is \<^verbatim>\<open>undefined\<close>.\<close>

definition getSpacePledgedData :: "string \<Rightarrow> jsval io" where
  "getSpacePledgedData network =
     try_catch
       (if network = ''chronos'' then
          and_then (request (Activate ''chronos'') (\<lambda>_. ())) (\<lambda>api.
          request (SpacePledged ''chronos'') (\<lambda>w. pledged w (tick w)))
        else if network = ''mainnet'' then
          and_then (request (Activate ''mainnet'') (\<lambda>_. ())) (\<lambda>api.
          request (SpacePledged ''mainnet'') (\<lambda>w. pledged w (tick w)))
        else ret Undefined)
       (\<lambda>error. and_then (console_log (ErrorFetchingSpacePledged network error)) (\<lambda>_.
                 throw error))"

text \<open>The credentials and the sheet identifier come from the process environment;
  \<^verbatim>\<open>process.env.GOOGLE_CLOUD_PRIVATE_KEY.replace(...)\<close> raises a \<^verbatim>\<open>TypeError\<close> when the
  variable is not set.  Building the client objects contacts no service.  The value is
  \<^verbatim>\<open>spreadsheetId\<close>.\<close>

definition setupSheets :: "jsval io" where
  "setupSheets w =
     (case env w ''GOOGLE_CLOUD_PRIVATE_KEY'' of
        None \<Rightarrow> (Inl (TypeError ''Cannot read properties of undefined (reading replace)''), w)
      | Some key \<Rightarrow>
          (Inr (case env w ''GOOGLE_SHEET_ID'' of None \<Rightarrow> Undefined | Some sid \<Rightarrow> Str sid), w))"

text \<open>One of the two blocks of lines 180 to 224: the row is appended to the range of the
  network if the node count is not \<^verbatim>\<open>null\<close>, and the append is skipped otherwise.  The
  arguments of the call are evaluated first, \<^verbatim>\<open>toString()\<close> among them.\<close>

definition appendNetwork :: "jsval \<Rightarrow> string \<Rightarrow> string \<Rightarrow> stats \<Rightarrow> jsval \<Rightarrow> unit io" where
  "appendNetwork spreadsheetId rangeName timestamp st spacePledged =
     (if nodeCount st \<noteq> Null then
        (case toString spacePledged of
           Inl e \<Rightarrow> throw e
         | Inr s \<Rightarrow>
             request (Append spreadsheetId rangeName
               [Str timestamp, nodeCount st, Str s, subspaceNodeCount st,
                spaceAcresNodeCount st, linuxNodeCount st, windowsNodeCount st,
                macosNodeCount st]) (\<lambda>_. ()))
      else console_log (SkippingAppend rangeName))"

definition chronosUrl :: string where
  "chronosUrl = ''https://telemetry.subspace.network/#list/0x91912b429ce7bf2975440a0920b46a892fddeeaed6ccc11c93f2d57ad1bd69ab''"

definition mainnetUrl :: string where
  "mainnetUrl = ''https://telemetry.subspace.network/#list/0x66455a580aabff303720aa83adbe6c44502922251c03ba73686d5245da9e21bd''"

text \<open>The \<^verbatim>\<open>try\<close> block of \<^verbatim>\<open>runScript\<close> after the browser has been launched
  (lines 158 to 224).\<close>

definition runScriptSteps :: "jsval \<Rightarrow> nat \<Rightarrow> unit io" where
  "runScriptSteps spreadsheetId browser =
     and_then (promise_all (request (NewPage browser) tick) (request (NewPage browser) tick))
       (\<lambda>(chronosPage, mainnetPage).
     and_then (promise_all (scrapePageData chronosPage chronosUrl ''Chronos'')
                           (scrapePageData mainnetPage mainnetUrl ''mainnet''))
       (\<lambda>(chronosStats, mainnetStats).
     and_then (promise_all (getSpacePledgedData ''chronos'') (getSpacePledgedData ''mainnet''))
       (\<lambda>(chronosSpacePledged, mainnetSpacePledged).
     and_then isoNow (\<lambda>timestamp.
     and_then (appendNetwork spreadsheetId ''Chronos'' timestamp chronosStats
                 chronosSpacePledged) (\<lambda>_.
     appendNetwork spreadsheetId ''mainnet'' timestamp mainnetStats mainnetSpacePledged)))))"

text \<open>The whole \<^verbatim>\<open>try\<close> block, together with the value the variable \<^verbatim>\<open>browser\<close> has when
  the block is left: it is assigned when \<^verbatim>\<open>puppeteer.launch\<close> has returned.\<close>

definition runScriptTry :: "world \<Rightarrow> ((error + unit) \<times> nat option) \<times> world" where
  "runScriptTry w =
     (case setupSheets w of
        (Inl e, w1) \<Rightarrow> ((Inl e, None), w1)
      | (Inr spreadsheetId, w1) \<Rightarrow>
          (case request Launch tick w1 of
             (Inl e, w2) \<Rightarrow> ((Inl e, None), w2)
           | (Inr browser, w2) \<Rightarrow>
               (case runScriptSteps spreadsheetId browser w2 of
                  (r, w3) \<Rightarrow> ((r, Some browser), w3))))"

text \<open>The \<^verbatim>\<open>finally\<close> block of both programs:
  \<^verbatim>\<open>if (browser) { await browser.close(); }\<close>.\<close>

definition closeBrowser :: "nat option \<Rightarrow> unit io" where
  "closeBrowser browser =
     (case browser of None \<Rightarrow> ret () | Some b \<Rightarrow> request (Close b) (\<lambda>_. ()))"

text \<open>A \<^verbatim>\<open>finally\<close> block that throws replaces the outcome of what came before it.\<close>

definition then_finally :: "(error + 'a) \<times> world \<Rightarrow> unit io \<Rightarrow> (error + 'a) \<times> world" where
  "then_finally rw fin =
     (case rw of (r, w) \<Rightarrow>
        (case fin w of (Inl e, w') \<Rightarrow> (Inl e, w') | (Inr u, w') \<Rightarrow> (r, w')))"

text \<open>\<^verbatim>\<open>runScript\<close> (lines 139 to 233): the \<^verbatim>\<open>catch\<close> block logs the error and does not
  throw again.\<close>

definition runScript :: "unit io" where
  "runScript w =
     (case runScriptTry w of
        ((r, browser), w1) \<Rightarrow>
          then_finally
            (case r of
               Inl error \<Rightarrow> console_log (ErrorDetails error) w1
             | Inr u \<Rightarrow> (Inr (), w1))
            (closeBrowser browser))"

section \<open>The serverless handler\<close>

definition MAX_RETRIES :: nat where
  "MAX_RETRIES = 3"

text \<open>
  The loop of \<^verbatim>\<open>runWithRetry\<close> (lines 12 to 21) from loop index \<open>i\<close> on.  \<open>calls\<close> counts
  the calls of \<open>fn\<close> made so far; it is bookkeeping of the model and not a variable of
  the program.  A loop that ends without \<^verbatim>\<open>return\<close> gives \<^verbatim>\<open>undefined\<close>, here \<open>None\<close>.
\<close>

function runWithRetry_from ::
    "'a io \<Rightarrow> nat \<Rightarrow> nat \<Rightarrow> nat \<Rightarrow> world \<Rightarrow> (error + 'a option) \<times> world \<times> nat" where
  "runWithRetry_from fn retries i calls w =
     (if i < retries then
        (case fn w of
           (Inr v, w') \<Rightarrow> (Inr (Some v), w', calls + 1)
         | (Inl error, w') \<Rightarrow>
             (case console_log (AttemptFailed (i + 1) error) w' of
                (r, w'') \<Rightarrow>
                  if i = retries - 1 then (Inl error, w'', calls + 1)
                  else runWithRetry_from fn retries (i + 1) (calls + 1) w''))
      else (Inr None, w, calls))"
  by pat_completeness auto
termination
  by (relation "measure (\<lambda>(fn, retries, i, calls, w). retries - i)") auto

definition runWithRetry :: "'a io \<Rightarrow> nat \<Rightarrow> 'a option io" where
  "runWithRetry fn retries w =
     (case runWithRetry_from fn retries 0 0 w of (r, w', calls) \<Rightarrow> (r, w'))"

definition runWithRetry_calls :: "'a io \<Rightarrow> nat \<Rightarrow> world \<Rightarrow> nat" where
  "runWithRetry_calls fn retries w =
     (case runWithRetry_from fn retries 0 0 w of (r, w', calls) \<Rightarrow> calls)"

text \<open>The request: \<open>body = Some v\<close> is a body whose property \<^verbatim>\<open>next_run\<close> is \<open>v\<close>
  (\<^verbatim>\<open>undefined\<close> if it has none); \<open>None\<close> is a body that is \<^verbatim>\<open>null\<close> or \<^verbatim>\<open>undefined\<close>,
  which cannot be destructured.\<close>

record req =
  body :: "jsval option"

record response =
  status :: nat
  message :: string
  nextRun :: jsval

definition telemetryUrl :: string where
  "telemetryUrl = ''https://telemetry.subspace.network/#/0x0c121c75f4ef450f40619e1fca9d1e8e7fbabc42c895bc4790801e85d5a91c34''"

definition apiUrl :: string where
  "apiUrl = ''https://telemetry.subspace.network/api''"

definition destructureBody :: "req \<Rightarrow> jsval io" where
  "destructureBody r =
     (case body r of
        None \<Rightarrow> throw (TypeError ''Cannot destructure property next_run'')
      | Some next_run \<Rightarrow> ret next_run)"

text \<open>The append of lines 135 to 151: it is made whatever the snapshot holds, and the
  pledged-space value goes into the row as it was received.\<close>

definition appendSheet1 :: "jsval \<Rightarrow> string \<Rightarrow> stats \<Rightarrow> jsval \<Rightarrow> unit io" where
  "appendSheet1 spreadsheetId timestamp st spacePledged =
     request (Append spreadsheetId ''Sheet1''
       [Str timestamp, nodeCount st, spacePledged, subspaceNodeCount st,
        spaceAcresNodeCount st, linuxNodeCount st, windowsNodeCount st,
        macosNodeCount st]) (\<lambda>_. ())"

text \<open>The \<^verbatim>\<open>try\<close> block of the unit of work after the browser has been launched
  (lines 50 to 158).  The value of the HTTP request is the property \<^verbatim>\<open>spacePledged\<close>
  of the response data.\<close>

definition handlerSteps :: "jsval \<Rightarrow> jsval \<Rightarrow> nat \<Rightarrow> response io" where
  "handlerSteps next_run spreadsheetId browser =
     and_then (request (NewPage browser) tick) (\<lambda>page.
     and_then (try_catch (request (Goto page telemetryUrl) (\<lambda>_. ()))
                 (\<lambda>error. and_then (console_log (NavigationFailed error)) (\<lambda>_. throw error)))
       (\<lambda>_.
     and_then (sleep 5000) (\<lambda>_.
     and_then (evaluateClick page) (\<lambda>found.
     and_then (console_log (ClickResult (if found then ''Element clicked''
                                         else ''Element not found''))) (\<lambda>_.
     and_then (sleep 2000) (\<lambda>_.
     and_then (evaluateStats page extractStats_serverless) (\<lambda>st.
     and_then (request (HttpGet apiUrl) (\<lambda>w. pledged w (tick w))) (\<lambda>spacePledged.
     and_then isoNow (\<lambda>timestamp.
     and_then (appendSheet1 spreadsheetId timestamp st spacePledged) (\<lambda>_.
     ret \<lparr> status = 200, message = ''Data updated successfully'',
           nextRun = next_run \<rparr>))))))))))"

definition handlerTry :: "req \<Rightarrow> world \<Rightarrow> ((error + response) \<times> nat option) \<times> world" where
  "handlerTry r w =
     (case and_then (destructureBody r) (\<lambda>next_run.
           and_then setupSheets (\<lambda>spreadsheetId.
           and_then (request ExecutablePath (\<lambda>_. ())) (\<lambda>_.
           ret (next_run, spreadsheetId)))) w of
        (Inl e, w1) \<Rightarrow> ((Inl e, None), w1)
      | (Inr (next_run, spreadsheetId), w1) \<Rightarrow>
          (case request Launch tick w1 of
             (Inl e, w2) \<Rightarrow> ((Inl e, None), w2)
           | (Inr browser, w2) \<Rightarrow>
               (case handlerSteps next_run spreadsheetId browser w2 of
                  (r', w3) \<Rightarrow> ((r', Some browser), w3))))"

text \<open>The unit of work (lines 24 to 168): the \<^verbatim>\<open>catch\<close> block logs the error and throws
  it again.\<close>

definition unitOfWork :: "req \<Rightarrow> response io" where
  "unitOfWork r w =
     (case handlerTry r w of
        ((res, browser), w1) \<Rightarrow>
          then_finally
            (case res of
               Inl error \<Rightarrow> and_then (console_log (ErrorDetails error)) (\<lambda>_. throw error) w1
             | Inr v \<Rightarrow> (Inr v, w1))
            (closeBrowser browser))"

text \<open>The exported handler (lines 23 to 169).\<close>

definition handler :: "req \<Rightarrow> response option io" where
  "handler r = runWithRetry (unitOfWork r) MAX_RETRIES"

section \<open>Observing a run\<close>

text \<open>The requests and pauses that a computation adds to the trace of the world it
  starts in.\<close>

definition emitted :: "'a io \<Rightarrow> world \<Rightarrow> (event \<times> error option) list" where
  "emitted m w = drop (length (trace w)) (trace (snd (m w)))"

definition logged :: "'a io \<Rightarrow> world \<Rightarrow> logmsg list" where
  "logged m w = drop (length (console w)) (console (snd (m w)))"



text \<open>Requests other than launching the browser, closing it and appending a row.\<close>

fun plain :: "event \<Rightarrow> bool" where
  "plain Launch = False"
| "plain (Close b) = False"
| "plain (Append spreadsheetId rangeName row) = False"
| "plain ev = True"

text \<open>A row whose second cell, the node count, is not \<^verbatim>\<open>null\<close>.\<close>

definition presentRow :: "jsval list \<Rightarrow> bool" where
  "presentRow row \<longleftrightarrow> length row = 8 \<and> row ! 1 \<noteq> Null"

fun appendsPresentRow :: "event \<times> error option \<Rightarrow> bool" where
  "appendsPresentRow (Append spreadsheetId rangeName row, out) = presentRow row"
| "appendsPresentRow (ev, out) = True"

text \<open>A computation only ever adds to the trace and to the console, and every request
  it adds satisfies \<open>P\<close>.\<close>

definition emits :: "(event \<times> error option \<Rightarrow> bool) \<Rightarrow> 'a io \<Rightarrow> bool" where
  "emits P m \<longleftrightarrow>
     (\<forall>w. \<exists>es ls. trace (snd (m w)) = trace w @ es \<and> console (snd (m w)) = console w @ ls \<and>
                   list_all P es)"



text \<open>A field of a snapshot that is \<^verbatim>\<open>null\<close> or an integer, and a snapshot all of whose
  fields are.\<close>

fun isCountOrNull :: "jsval \<Rightarrow> bool" where
  "isCountOrNull Null = True"
| "isCountOrNull (Number (Num n)) = True"
| "isCountOrNull v = False"

definition countsOrNull :: "stats \<Rightarrow> bool" where
  "countsOrNull st \<longleftrightarrow>
     isCountOrNull (nodeCount st) \<and> isCountOrNull (subspaceNodeCount st) \<and>
     isCountOrNull (spaceAcresNodeCount st) \<and> isCountOrNull (linuxNodeCount st) \<and>
     isCountOrNull (windowsNodeCount st) \<and> isCountOrNull (macosNodeCount st)"

text \<open>In the snapshot \<open>st\<close> every field whose element is not found on the page \<open>d\<close> is
  \<^verbatim>\<open>null\<close>.\<close>

definition nullWhereNotFound :: "document \<Rightarrow> stats \<Rightarrow> bool" where
  "nullWhereNotFound d st \<longleftrightarrow>
     (querySelector d nodeCountSelector = None \<longrightarrow> nodeCount st = Null) \<and>
     (querySelector d subspaceSelector = None \<longrightarrow> subspaceNodeCount st = Null) \<and>
     (querySelector d spaceAcresSelector = None \<longrightarrow> spaceAcresNodeCount st = Null) \<and>
     (xpathFirst d linuxXPath = None \<longrightarrow> linuxNodeCount st = Null) \<and>
     (xpathFirst d windowsXPath = None \<longrightarrow> windowsNodeCount st = Null) \<and>
     (xpathFirst d macosXPath = None \<longrightarrow> macosNodeCount st = Null)"

text \<open>A computation leaves the pages of the world and the transfer as they are.  The
  page that the last request of a computation saw.  A computation that, when it returns,
  returns what \<^verbatim>\<open>page.evaluate\<close> gives for the page function \<open>f\<close> on the page its last
  request saw.\<close>

definition steady :: "'a io \<Rightarrow> bool" where
  "steady m \<longleftrightarrow> (\<forall>w. dom (snd (m w)) = dom w \<and> transfer (snd (m w)) = transfer w)"

definition pageRead :: "'a io \<Rightarrow> world \<Rightarrow> document" where
  "pageRead m w = dom w (tick (snd (m w)) - 1)"

definition returnsSnapshot :: "(document \<Rightarrow> stats) \<Rightarrow> stats io \<Rightarrow> bool" where
  "returnsSnapshot f m \<longleftrightarrow>
     (\<forall>w st. fst (m w) = Inr st \<longrightarrow> st = transferStats (transfer w) (f (pageRead m w)))"

text \<open>The world in which \<^verbatim>\<open>runWithRetry\<close> makes its next call after \<open>k\<close> calls in a row,
  made at the loop indices \<open>i\<close>, \<open>i + 1\<close>, ..., have failed; \<open>None\<close> if one of them does
  not fail.\<close>

fun after_failures :: "'a io \<Rightarrow> nat \<Rightarrow> nat \<Rightarrow> world \<Rightarrow> world option" where
  "after_failures fn i 0 w = Some w"
| "after_failures fn i (Suc k) w =
     (case fn w of
        (Inl error, w') \<Rightarrow>
          after_failures fn (i + 1) k (snd (console_log (AttemptFailed (i + 1) error) w'))
      | (Inr v, w') \<Rightarrow> None)"

text \<open>The outcome of the call that \<^verbatim>\<open>runWithRetry\<close> makes after \<open>k\<close> failed calls in a
  row, if the first \<open>k\<close> calls do fail.\<close>

definition next_outcome :: "'a io \<Rightarrow> nat \<Rightarrow> world \<Rightarrow> (error + 'a) option" where
  "next_outcome fn k w =
     (case after_failures fn 0 k w of None \<Rightarrow> None | Some wk \<Rightarrow> Some (fst (fn wk)))"

section \<open>Example pages and worlds\<close>

text \<open>A page on which every element is found, a page with the two tables but with no
  selected chain, and a page on which no lookup finds anything.\<close>

definition fullPage :: document where
  "fullPage =
     \<lparr> querySelector =
         (\<lambda>s. if s = nodeCountSelector then Some '' 120 ''
              else if s = subspaceSelector then Some ''100''
              else if s = spaceAcresSelector then Some ''20''
              else if s = markerSelector then Some ''Chronos 120''
              else None),
       xpathFirst =
         (\<lambda>s. if s = linuxXPath then Some ''90''
              else if s = windowsXPath then Some ''25''
              else if s = macosXPath then Some ''5''
              else if s = clickXPath then Some ''Details''
              else None) \<rparr>"

definition unselectedPage :: document where
  "unselectedPage =
     \<lparr> querySelector =
         (\<lambda>s. if s = subspaceSelector then Some ''100''
              else if s = spaceAcresSelector then Some ''20''
              else None),
       xpathFirst =
         (\<lambda>s. if s = linuxXPath then Some ''90''
              else if s = windowsXPath then Some ''25''
              else if s = macosXPath then Some ''5''
              else None) \<rparr>"

definition emptyPage :: document where
  "emptyPage = \<lparr> querySelector = (\<lambda>s. None), xpathFirst = (\<lambda>s. None) \<rparr>"

text \<open>A world in which no request is rejected, every page is \<open>fullPage\<close>, the
  pledged space is the string \<^verbatim>\<open>"12345"\<close>, snapshots are transferred as the library
  does and the environment is set.\<close>

definition quietWorld :: world where
  "quietWorld =
     \<lparr> fault = (\<lambda>n. None),
       dom = (\<lambda>n. fullPage),
       pledged = (\<lambda>n. Str ''12345''),
       clock = (\<lambda>n. ''2024-01-01T00:00:00.000Z''),
       transfer = jsonTransfer,
       env = (\<lambda>name. if name = ''GOOGLE_CLOUD_PRIVATE_KEY'' then Some ''key''
                     else if name = ''GOOGLE_SHEET_ID'' then Some ''sheet''
                     else None),
       tick = 0,
       trace = [],
       console = [] \<rparr>"

text \<open>The same world with the requests of the given numbers rejected.\<close>

definition rejecting :: "nat list \<Rightarrow> world" where
  "rejecting ns =
     quietWorld\<lparr>fault := (\<lambda>n. if n \<in> set ns then Some (Rejected ''rejected'') else None)\<rparr>"

text \<open>The quiet world with an empty page everywhere, and a world in which the wait for
  the marker (request 1 of a scrape that starts the run) is rejected and the page has no
  selected chain.\<close>

definition blankWorld :: world where
  "blankWorld = quietWorld\<lparr>dom := (\<lambda>n. emptyPage)\<rparr>"

definition unselectedWorld :: world where
  "unselectedWorld = (rejecting [1])\<lparr>dom := (\<lambda>n. unselectedPage)\<rparr>"

text \<open>The quiet world in which the pledged space is answered as the number 12345, and
  the world in which the wait for the marker (request 1 of a scrape that starts the run)
  is rejected and nothing is found on the page.\<close>

definition numericWorld :: world where
  "numericWorld = quietWorld\<lparr>pledged := (\<lambda>n. Number (Num 12345))\<rparr>"

definition blankTimeoutWorld :: world where
  "blankTimeoutWorld = (rejecting [1])\<lparr>dom := (\<lambda>n. emptyPage)\<rparr>"

text \<open>The quiet world in which the pledged space is answered as the big integer 12345,
  as the chain client does.\<close>

definition bigintWorld :: world where
  "bigintWorld = quietWorld\<lparr>pledged := (\<lambda>n. BigInt 12345)\<rparr>"

definition hourlyRequest :: req where
  "hourlyRequest = \<lparr> body = Some (Str ''2024-01-01T01:00:00.000Z'') \<rparr>"

definition okResponse :: response where
  "okResponse =
     \<lparr> status = 200, message = ''Data updated successfully'',
       nextRun = Str ''2024-01-01T01:00:00.000Z'' \<rparr>"

text \<open>A single request, used as an operation for \<^verbatim>\<open>runWithRetry\<close>.\<close>

definition ping :: "unit io" where
  "ping = request (HttpGet apiUrl) (\<lambda>w. ())"

section \<open>Properties\<close>

declare clickLoop.simps [simp del]
declare runWithRetry_from.simps [simp del]

named_theorems emits_intros

lemma emits_ret [emits_intros]: "emits P (ret x)"
  by (simp add: emits_def ret_def)

lemma emits_throw [emits_intros]: "emits P (throw e)"
  by (simp add: emits_def throw_def)

lemma emits_console_log [emits_intros]: "emits P (console_log msg)"
  by (simp add: emits_def console_log_def)

lemma emits_isoNow [emits_intros]: "emits P isoNow"
  by (simp add: emits_def isoNow_def)

lemma emits_setupSheets [emits_intros]: "emits P setupSheets"
  by (simp add: emits_def setupSheets_def split: option.splits)

lemma emits_destructureBody [emits_intros]: "emits P (destructureBody r)"
  by (simp add: destructureBody_def emits_ret emits_throw split: option.splits)

lemma emits_sleep [emits_intros]: "P (Sleep ms, None) \<Longrightarrow> emits P (sleep ms)"
  by (simp add: emits_def sleep_def)

lemma emits_request [emits_intros]: "(\<And>out. P (ev, out)) \<Longrightarrow> emits P (request ev answer)"
  by (simp add: emits_def request_def advance_def split: option.splits)

lemma emits_and_then [emits_intros]:
  assumes m: "emits P m" and f: "\<And>x. emits P (f x)"
  shows "emits P (and_then m f)"
  unfolding emits_def
proof
  fix w
  obtain r w1 where mw: "m w = (r, w1)" by (cases "m w")
  from m obtain es1 ls1 where e1: "trace w1 = trace w @ es1" "console w1 = console w @ ls1" "list_all P es1"
    using mw unfolding emits_def by (metis snd_conv)
  show "\<exists>es ls. trace (snd (and_then m f w)) = trace w @ es \<and>
          console (snd (and_then m f w)) = console w @ ls \<and> list_all P es"
  proof (cases r)
    case (Inl e)
    then show ?thesis using mw e1 by (simp add: and_then_def)
  next
    case (Inr x)
    from f [of x] obtain es2 ls2 where e2: "trace (snd (f x w1)) = trace w1 @ es2"
        "console (snd (f x w1)) = console w1 @ ls2" "list_all P es2"
      unfolding emits_def by blast
    then show ?thesis using mw e1 Inr by (simp add: and_then_def)
  qed
qed

lemma emits_try_catch [emits_intros]:
  assumes m: "emits P m" and h: "\<And>e. emits P (h e)"
  shows "emits P (try_catch m h)"
  unfolding emits_def
proof
  fix w
  obtain r w1 where mw: "m w = (r, w1)" by (cases "m w")
  from m obtain es1 ls1 where e1: "trace w1 = trace w @ es1" "console w1 = console w @ ls1" "list_all P es1"
    using mw unfolding emits_def by (metis snd_conv)
  show "\<exists>es ls. trace (snd (try_catch m h w)) = trace w @ es \<and>
          console (snd (try_catch m h w)) = console w @ ls \<and> list_all P es"
  proof (cases r)
    case (Inr x)
    then show ?thesis using mw e1 by (simp add: try_catch_def)
  next
    case (Inl e)
    from h [of e] obtain es2 ls2 where e2: "trace (snd (h e w1)) = trace w1 @ es2"
        "console (snd (h e w1)) = console w1 @ ls2" "list_all P es2"
      unfolding emits_def by blast
    then show ?thesis using mw e1 Inl by (simp add: try_catch_def)
  qed
qed

lemma emits_promise_all [emits_intros]:
  assumes m1: "emits P m1" and m2: "emits P m2"
  shows "emits P (promise_all m1 m2)"
  unfolding emits_def
proof
  fix w
  obtain r1 w1 where a: "m1 w = (r1, w1)" by (cases "m1 w")
  obtain r2 w2 where b: "m2 w1 = (r2, w2)" by (cases "m2 w1")
  from m1 obtain es1 ls1 where e1: "trace w1 = trace w @ es1" "console w1 = console w @ ls1" "list_all P es1"
    using a unfolding emits_def by (metis snd_conv)
  from m2 obtain es2 ls2 where e2: "trace w2 = trace w1 @ es2" "console w2 = console w1 @ ls2" "list_all P es2"
    using b unfolding emits_def by (metis snd_conv)
  have "snd (promise_all m1 m2 w) = w2"
    using a b by (simp add: promise_all_def split: sum.splits)
  then show "\<exists>es ls. trace (snd (promise_all m1 m2 w)) = trace w @ es \<and>
          console (snd (promise_all m1 m2 w)) = console w @ ls \<and> list_all P es"
    using e1 e2 by simp
qed

lemma emits_if [emits_intros]: "emits P a \<Longrightarrow> emits P b \<Longrightarrow> emits P (if c then a else b)"
  by simp

lemma emits_case_prod [emits_intros]: "(\<And>a b. emits P (g a b)) \<Longrightarrow> emits P (case_prod g x)"
  by (cases x) simp

lemma emits_evaluateClick [emits_intros]: "(\<And>out. P (EvaluateClick page, out)) \<Longrightarrow> emits P (evaluateClick page)"
  by (simp add: evaluateClick_def emits_request)

lemma emits_evaluateStats [emits_intros]: "(\<And>out. P (EvaluateStats page, out)) \<Longrightarrow> emits P (evaluateStats page f)"
  by (simp add: evaluateStats_def emits_request)

lemma emits_waitForElement [emits_intros]:
  "(\<And>out. P (WaitForSelector page selector, out)) \<Longrightarrow> emits P (waitForElement page selector)"
  unfolding waitForElement_def by (intro emits_intros)

lemma clickLoop_rejected:
  assumes "i < 3" and "fault w (tick w) = Some e"
  shows "clickLoop page networkName i w =
         clickLoop page networkName (i + 1)
           (w\<lparr>tick := Suc (tick w),
              console := console w @ [ClickAttemptFailed networkName (i + 1)],
              trace := trace w @ [(EvaluateClick page, Some e), (Sleep 2000, None)]\<rparr>)"
  using assms
  by (simp add: clickLoop.simps [of page networkName i w] evaluateClick_def request_def
      advance_def and_then_def console_log_def sleep_def)

lemma clickLoop_answered:
  assumes "i < 3" and "fault w (tick w) = None"
  shows "clickLoop page networkName i w =
         (Inr True, w\<lparr>tick := Suc (tick w), trace := trace w @ [(EvaluateClick page, None)]\<rparr>)"
  using assms
  by (simp add: clickLoop.simps [of page networkName i w] evaluateClick_def request_def
      advance_def)

lemma clickLoop_done:
  assumes "\<not> i < 3"
  shows "clickLoop page networkName i w = (Inr False, w)"
  using assms by (simp add: clickLoop.simps [of page networkName i w])

lemma emits_clickLoop:
  assumes "\<And>ev out. plain ev \<Longrightarrow> P (ev, out)"
  shows "emits P (clickLoop page networkName i)"
  unfolding emits_def
proof
  fix w
  show "\<exists>es ls. trace (snd (clickLoop page networkName i w)) = trace w @ es \<and>
          console (snd (clickLoop page networkName i w)) = console w @ ls \<and> list_all P es"
  proof (induction "3 - i" arbitrary: i w)
    case 0
    then show ?case by (simp add: clickLoop_done)
  next
    case (Suc n)
    then have lt: "i < 3" and n: "n = 3 - (i + 1)" by simp_all
    have c: "\<And>out. P (EvaluateClick page, out)" and s: "P (Sleep 2000, None)"
      using assms by simp_all
    show ?case
    proof (cases "fault w (tick w)")
      case None
      then show ?thesis using lt c by (simp add: clickLoop_answered)
    next
      case (Some e)
      let ?w2 = "w\<lparr>tick := Suc (tick w),
              console := console w @ [ClickAttemptFailed networkName (i + 1)],
              trace := trace w @ [(EvaluateClick page, Some e), (Sleep 2000, None)]\<rparr>"
      from Suc.hyps(1) [OF n, of ?w2] obtain es ls where
        "trace (snd (clickLoop page networkName (i + 1) ?w2)) = trace ?w2 @ es"
        "console (snd (clickLoop page networkName (i + 1) ?w2)) = console ?w2 @ ls" "list_all P es"
        by blast
      then show ?thesis using clickLoop_rejected [OF lt Some, of page networkName] c s by simp
    qed
  qed
qed

lemma emits_scrapePageData:
  assumes "\<And>ev out. plain ev \<Longrightarrow> P (ev, out)"
  shows "emits P (scrapePageData page url networkName)"
  unfolding scrapePageData_def
  by (intro emits_intros emits_clickLoop) (simp_all add: assms)

lemma emits_getSpacePledgedData:
  assumes "\<And>ev out. plain ev \<Longrightarrow> P (ev, out)"
  shows "emits P (getSpacePledgedData network)"
  unfolding getSpacePledgedData_def
  by (intro emits_intros) (simp_all add: assms)

lemma emits_appendNetwork:
  assumes "\<And>sid r row out. presentRow row \<Longrightarrow> P (Append sid r row, out)"
  shows "emits P (appendNetwork spreadsheetId rangeName timestamp st spacePledged)"
  unfolding appendNetwork_def
  by (auto intro!: emits_intros assms simp: presentRow_def split: sum.splits)

lemma emits_runScriptSteps:
  assumes "\<And>ev out. plain ev \<Longrightarrow> P (ev, out)"
    and "\<And>sid r row out. presentRow row \<Longrightarrow> P (Append sid r row, out)"
  shows "emits P (runScriptSteps spreadsheetId browser)"
  unfolding runScriptSteps_def
  by (intro emits_intros emits_scrapePageData emits_getSpacePledgedData emits_appendNetwork)
     (simp_all add: assms)



lemma runWithRetry_from_success:
  assumes "i < retries" and "fn w = (Inr v, w')"
  shows "runWithRetry_from fn retries i c w = (Inr (Some v), w', c + 1)"
  using assms by (simp add: runWithRetry_from.simps [of fn retries i c w])

lemma runWithRetry_from_last:
  assumes "i + 1 = retries" and "fn w = (Inl e, w')"
  shows "runWithRetry_from fn retries i c w =
         (Inl e, snd (console_log (AttemptFailed retries e) w'), c + 1)"
proof -
  have "i < retries" and "i = retries - 1" using assms(1) by arith+
  then show ?thesis
    using assms by (subst runWithRetry_from.simps) (simp add: console_log_def)
qed

lemma runWithRetry_from_retry:
  assumes "i + 1 < retries" and "fn w = (Inl e, w')"
  shows "runWithRetry_from fn retries i c w =
         runWithRetry_from fn retries (i + 1) (c + 1)
           (snd (console_log (AttemptFailed (i + 1) e) w'))"
proof -
  have "i < retries" and "i \<noteq> retries - 1" using assms(1) by arith+
  then show ?thesis
    using assms(2) by (subst runWithRetry_from.simps) (simp add: console_log_def)
qed

lemma runWithRetry_from_skip:
  assumes "after_failures fn i k w = Some wk" and "i + k < retries"
  shows "runWithRetry_from fn retries i c w = runWithRetry_from fn retries (i + k) (c + k) wk"
  using assms
proof (induction k arbitrary: i c w)
  case 0
  then show ?case by simp
next
  case (Suc k)
  obtain r w' where f: "fn w = (r, w')" by (cases "fn w")
  with Suc.prems(1) obtain e where r: "r = Inl e" by (cases r) simp_all
  let ?w = "snd (console_log (AttemptFailed (i + 1) e) w')"
  have a: "after_failures fn (i + 1) k ?w = Some wk"
    using Suc.prems(1) f r by simp
  have lt: "i + 1 < retries" and lt': "i + 1 + k < retries" using Suc.prems(2) by arith+
  have "runWithRetry_from fn retries i c w = runWithRetry_from fn retries (i + 1) (c + 1) ?w"
    using runWithRetry_from_retry [OF lt, of fn w e w' c] f r by simp
  also have "\<dots> = runWithRetry_from fn retries (i + 1 + k) (c + 1 + k) wk"
    by (rule Suc.IH [OF a lt'])
  finally show ?case by simp
qed

lemma after_failures_prefix:
  assumes "after_failures fn i (j + Suc m) w = Some wk"
  shows "\<exists>wj e w'. after_failures fn i j w = Some wj \<and> fn wj = (Inl e, w')"
  using assms
proof (induction j arbitrary: i w)
  case 0
  then show ?case by (cases "fn w") (auto split: sum.splits)
next
  case (Suc j)
  obtain r w' where f: "fn w = (r, w')" by (cases "fn w")
  with Suc.prems obtain e where r: "r = Inl e" by (cases r) simp_all
  from Suc.prems f r
  have "after_failures fn (i + 1) (j + Suc m) (snd (console_log (AttemptFailed (i + 1) e) w')) = Some wk"
    by simp
  from Suc.IH [OF this] show ?case using f r by simp
qed

lemma runWithRetry_exhausted:
  assumes "after_failures fn 0 k w = Some wk" and "0 < retries" and "retries \<le> k"
  shows "\<exists>wl e w'. after_failures fn 0 (retries - 1) w = Some wl \<and> fn wl = (Inl e, w') \<and>
           runWithRetry_from fn retries 0 0 w =
             (Inl e, snd (console_log (AttemptFailed retries e) w'), retries)"
proof -
  define m where "m = k - retries"
  have k: "k = (retries - 1) + Suc m" using assms(2,3) unfolding m_def by arith
  from after_failures_prefix [of fn 0 "retries - 1" m w wk] assms(1) k
  obtain wl e w' where l: "after_failures fn 0 (retries - 1) w = Some wl" "fn wl = (Inl e, w')"
    by auto
  have "runWithRetry_from fn retries 0 0 w = runWithRetry_from fn retries (retries - 1) (retries - 1) wl"
    using runWithRetry_from_skip [OF l(1), of retries 0] assms(2) by simp
  also have "\<dots> = (Inl e, snd (console_log (AttemptFailed retries e) w'), retries)"
    using runWithRetry_from_last [of "retries - 1" retries fn wl e w' "retries - 1"] l(2) assms(2)
    by simp
  finally show ?thesis using l by blast
qed

lemma runWithRetry_recovered:
  assumes "after_failures fn 0 k w = Some wk" and "k < retries" and "fn wk = (Inr v, w')"
  shows "runWithRetry_from fn retries 0 0 w = (Inr (Some v), w', k + 1)"
  using runWithRetry_from_skip [OF assms(1), of retries 0] assms(2)
    runWithRetry_from_success [of k retries fn wk v w' k] assms(3)
  by simp


lemma logged_append:
  "console (snd (m w)) = console w @ ls \<Longrightarrow> logged m w = ls"
  by (simp add: logged_def)

lemma setupSheets_world: "snd (setupSheets w) = w"
  by (simp add: setupSheets_def split: option.splits)

lemma runScriptTry_shape:
  assumes "\<And>ev out. plain ev \<Longrightarrow> P (ev, out)"
    and "\<And>sid r row out. presentRow row \<Longrightarrow> P (Append sid r row, out)"
    and "runScriptTry w = ((r, browser), w1)"
  shows "\<exists>es ls. trace w1 = trace w @ es \<and> console w1 = console w @ ls \<and>
           (case browser of
              None \<Rightarrow> (es = [] \<or> (\<exists>e. es = [(Launch, Some e)])) \<and> isl r
            | Some b \<Rightarrow> (\<exists>es'. es = (Launch, None) # es' \<and> list_all P es'))"
proof (cases "fst (setupSheets w)")
  case (Inl e)
  then have "setupSheets w = (Inl e, w)" using setupSheets_world [of w] by (metis prod.collapse)
  then have "runScriptTry w = ((Inl e, None), w)" by (simp add: runScriptTry_def)
  then show ?thesis using assms(3) by auto
next
  case (Inr sid)
  then have s: "setupSheets w = (Inr sid, w)" using setupSheets_world [of w] by (metis prod.collapse)
  show ?thesis
  proof (cases "fault w (tick w)")
    case (Some e)
    then have "runScriptTry w = ((Inl e, None), advance Launch w)"
      using s by (simp add: runScriptTry_def request_def)
    then show ?thesis using Some assms(3) by (auto simp: advance_def)
  next
    case None
    obtain r' w3 where st: "runScriptSteps sid (tick w) (advance Launch w) = (r', w3)"
      by (cases "runScriptSteps sid (tick w) (advance Launch w)")
    from emits_runScriptSteps [where P = P, OF assms(1,2), of sid "tick w"] obtain es ls where
      e: "trace w3 = trace (advance Launch w) @ es" "console w3 = console (advance Launch w) @ ls"
         "list_all P es"
      using st unfolding emits_def by (metis snd_conv)
    have "runScriptTry w = ((r', Some (tick w)), w3)"
      using s None st by (simp add: runScriptTry_def request_def)
    then show ?thesis using e None assms(3) by (auto simp: advance_def)
  qed
qed

lemma runScript_shape:
  assumes "\<And>ev out. plain ev \<Longrightarrow> P (ev, out)"
    and "\<And>sid r row out. presentRow row \<Longrightarrow> P (Append sid r row, out)"
  shows "(emitted runScript w = [] \<and> fst (runScript w) = Inr ())
       \<or> (\<exists>e. emitted runScript w = [(Launch, Some e)] \<and> fst (runScript w) = Inr ())
       \<or> (\<exists>es b out. emitted runScript w = (Launch, None) # es @ [(Close b, out)] \<and> list_all P es \<and>
             fst (runScript w) = (case out of None \<Rightarrow> Inr () | Some e \<Rightarrow> Inl e))"
proof -
  obtain r browser w1 where t: "runScriptTry w = ((r, browser), w1)"
    by (metis prod.collapse)
  from runScriptTry_shape [where P = P, OF assms t] obtain es ls where
    e: "trace w1 = trace w @ es" "console w1 = console w @ ls"
       "case browser of
          None \<Rightarrow> (es = [] \<or> (\<exists>e. es = [(Launch, Some e)])) \<and> isl r
        | Some b \<Rightarrow> (\<exists>es'. es = (Launch, None) # es' \<and> list_all P es')"
    by auto
  define rw where "rw = (case r of Inl error \<Rightarrow> console_log (ErrorDetails error) w1 | Inr u \<Rightarrow> (Inr (), w1))"
  have rw: "fst rw = Inr ()" "trace (snd rw) = trace w1" "fault (snd rw) = fault w1" "tick (snd rw) = tick w1"
    by (simp_all add: rw_def console_log_def split: sum.splits)
  have run: "runScript w = then_finally rw (closeBrowser browser)"
    using t by (simp add: runScript_def rw_def)
  show ?thesis
  proof (cases browser)
    case None
    then have "runScript w = rw" using run rw(1)
      by (cases rw) (simp add: then_finally_def closeBrowser_def ret_def)
    then have "trace (snd (runScript w)) = trace w @ es" "fst (runScript w) = Inr ()"
      using rw e by simp_all
    then show ?thesis using e(3) None by (auto simp: emitted_def)
  next
    case (Some b)
    with e(3) obtain es' where es': "es = (Launch, None) # es'" "list_all P es'" by auto
    let ?out = "fault w1 (tick w1)"
    have "trace (snd (runScript w)) = trace w @ ((Launch, None) # es' @ [(Close b, ?out)])"
      "fst (runScript w) = (case ?out of None \<Rightarrow> Inr () | Some e \<Rightarrow> Inl e)"
      using run rw e es' Some
      by (cases rw; simp add: then_finally_def closeBrowser_def request_def advance_def
            split: option.splits)+
    then show ?thesis using es'(2) by (auto simp: emitted_def)
  qed
qed

subsection \<open>Evaluating the examples\<close>

lemmas io_defs = ret_def throw_def and_then_def try_catch_def promise_all_def request_def
  advance_def sleep_def console_log_def isoNow_def then_finally_def

lemmas page_defs = markerSelector_def nodeCountSelector_def subspaceSelector_def
  spaceAcresSelector_def clickXPath_def linuxXPath_def windowsXPath_def macosXPath_def
  getTextBySelector_def getTextByXPath_def readNodeCount_def extractStats_local_def
  parseOrNull_def extractStats_serverless_def transferStats_def evaluateStats_def
  evaluateClick_def trim_def isWhiteSpace_def digitValue_def isRadixDigit_def radixValue_def
  parseInt_def parseIntOf_def Let_def

lemmas local_defs = waitForElement_def scrapePageData_def getSpacePledgedData_def
  setupSheets_def appendNetwork_def chronosUrl_def mainnetUrl_def runScriptSteps_def
  runScriptTry_def closeBrowser_def runScript_def toString_def

lemmas serverless_defs = MAX_RETRIES_def runWithRetry_def runWithRetry_calls_def
  telemetryUrl_def apiUrl_def destructureBody_def appendSheet1_def handlerSteps_def
  handlerTry_def unitOfWork_def handler_def setupSheets_def closeBrowser_def

lemmas example_defs = fullPage_def unselectedPage_def emptyPage_def quietWorld_def
  rejecting_def blankWorld_def unselectedWorld_def numericWorld_def bigintWorld_def blankTimeoutWorld_def
  hourlyRequest_def okResponse_def ping_def

subsection \<open>The retry wrapper\<close>

text \<open>
  Claim C2, amended.  Let the first \<open>k\<close> calls of \<open>fn\<close> fail and, if \<open>k\<close> is less than
  \<open>MAX_RETRIES\<close>, let the next call succeed with \<open>v\<close>.  Then \<^verbatim>\<open>runWithRetry\<close> calls \<open>fn\<close>
  exactly \<open>min (k + 1) MAX_RETRIES\<close> times: the failing calls up to the limit and, below
  the limit, the one call that succeeds.  Below the limit no failure reaches the caller
  and the value is \<open>v\<close>; from the limit on, the error of call number \<open>MAX_RETRIES\<close>, the
  last one made, is thrown to the caller.
\<close>

theorem runWithRetry_calls_bounded:
  assumes "after_failures fn 0 k w = Some wk"
    and "k < MAX_RETRIES \<Longrightarrow> fst (fn wk) = Inr v"
  shows "runWithRetry_calls fn MAX_RETRIES w = min (k + 1) MAX_RETRIES \<and>
         (k < MAX_RETRIES \<longrightarrow> fst (runWithRetry fn MAX_RETRIES w) = Inr (Some v)) \<and>
         (MAX_RETRIES \<le> k \<longrightarrow>
            (\<exists>wl e. after_failures fn 0 (MAX_RETRIES - 1) w = Some wl \<and> fst (fn wl) = Inl e \<and>
                    fst (runWithRetry fn MAX_RETRIES w) = Inl e))"
proof (cases "k < MAX_RETRIES")
  case True
  with assms(2) obtain w' where "fn wk = (Inr v, w')" by (cases "fn wk") simp
  from runWithRetry_recovered [OF assms(1) True this] True
  show ?thesis by (simp add: runWithRetry_calls_def runWithRetry_def)
next
  case False
  then have le: "MAX_RETRIES \<le> k" by simp
  have pos: "0 < MAX_RETRIES" by (simp add: MAX_RETRIES_def)
  from runWithRetry_exhausted [OF assms(1) pos le] obtain wl e w' where
    "after_failures fn 0 (MAX_RETRIES - 1) w = Some wl" "fn wl = (Inl e, w')"
    "runWithRetry_from fn MAX_RETRIES 0 0 w =
       (Inl e, snd (console_log (AttemptFailed MAX_RETRIES e) w'), MAX_RETRIES)"
    by blast
  then show ?thesis using le by (auto simp: runWithRetry_calls_def runWithRetry_def)
qed

text \<open>One failure followed by a success: two calls, and the value of the second.\<close>

theorem runWithRetry_calls_bounded_witness:
  "next_outcome ping 1 (rejecting [0]) = Some (Inr ()) \<and>
   runWithRetry_calls ping MAX_RETRIES (rejecting [0]) = 2 \<and>
   fst (runWithRetry ping MAX_RETRIES (rejecting [0])) = Inr (Some ())"
proof -
  have "\<exists>wk. after_failures ping 0 (Suc 0) (rejecting [0]) = Some wk \<and> fst (ping wk) = Inr ()"
    by (simp add: io_defs example_defs)
  then obtain wk where a: "after_failures ping 0 (Suc 0) (rejecting [0]) = Some wk"
    and b: "fst (ping wk) = Inr ()" by blast
  from runWithRetry_calls_bounded [OF a b] a b show ?thesis
    by (simp add: MAX_RETRIES_def next_outcome_def)
qed

text \<open>The claim as it is written asks for \<open>min k MAX_RETRIES\<close> calls.  With one failure
  followed by a success that would be one call; the wrapper makes two.\<close>

theorem runWithRetry_calls_counterexample:
  "next_outcome ping 1 (rejecting [0]) = Some (Inr ()) \<and>
   runWithRetry_calls ping MAX_RETRIES (rejecting [0]) \<noteq> min 1 MAX_RETRIES"
  by (simp add: next_outcome_def runWithRetry_calls_def runWithRetry_from.simps MAX_RETRIES_def
      io_defs example_defs)

text \<open>
  Claim C6.  When the unit of work of the serverless handler throws on attempts 1 and 2
  and returns \<open>v\<close> on attempt 3, the handler returns \<open>v\<close> and no error reaches the caller.
\<close>

theorem handler_third_attempt:
  assumes "after_failures (unitOfWork r) 0 2 w = Some w2"
    and "fst (unitOfWork r w2) = Inr v"
  shows "handler r w = (Inr (Some v), snd (unitOfWork r w2))"
proof -
  from assms(2) have u: "unitOfWork r w2 = (Inr v, snd (unitOfWork r w2))"
    by (metis prod.collapse)
  from runWithRetry_recovered [OF assms(1) _ u, of MAX_RETRIES]
  show ?thesis by (simp add: handler_def runWithRetry_def MAX_RETRIES_def)
qed

text \<open>The pledged-space request is rejected on the first two attempts (requests 6 and
  14) and answered on the third.\<close>

theorem handler_third_attempt_witness:
  "next_outcome (unitOfWork hourlyRequest) 2 (rejecting [6, 14]) = Some (Inr okResponse) \<and>
   fst (handler hourlyRequest (rejecting [6, 14])) = Inr (Some okResponse)"
proof -
  have "\<exists>w2. after_failures (unitOfWork hourlyRequest) 0 (Suc (Suc 0)) (rejecting [6, 14]) = Some w2 \<and>
          fst (unitOfWork hourlyRequest w2) = Inr okResponse"
    by (simp add: io_defs serverless_defs example_defs page_defs)
  then obtain w2 where
    a: "after_failures (unitOfWork hourlyRequest) 0 2 (rejecting [6, 14]) = Some w2" and
    b: "fst (unitOfWork hourlyRequest w2) = Inr okResponse"
    by (auto simp: numeral_2_eq_2)
  from handler_third_attempt [OF a b] a b show ?thesis
    by (simp add: next_outcome_def)
qed

subsection \<open>The shape of a run of the serverless unit of work\<close>




subsection \<open>The browser\<close>






subsection \<open>Appending rows\<close>



lemma appendSheet1_appends:
  "emitted (appendSheet1 spreadsheetId timestamp st spacePledged) w =
         [(Append spreadsheetId ''Sheet1''
             [Str timestamp, nodeCount st, spacePledged, subspaceNodeCount st,
              spaceAcresNodeCount st, linuxNodeCount st, windowsNodeCount st, macosNodeCount st],
           fault w (tick w))]"
  by (simp add: appendSheet1_def emitted_def request_def advance_def split: option.splits)

lemma appendsPresentRow_plain: "plain ev \<Longrightarrow> appendsPresentRow (ev, out)"
  by (cases ev) simp_all






subsection \<open>Errors of the local script\<close>

lemma fst_Launch_plain: "plain ev \<Longrightarrow> ev \<noteq> Launch"
  by (cases ev) simp_all

lemma no_Launch:
  assumes "list_all (\<lambda>e. fst e \<noteq> Launch) es"
  shows "filter (\<lambda>e. fst e = Launch) es = []"
  using assms by (induction es) auto

lemma runScript_logs_error:
  assumes "fst (fst (runScriptTry w)) = Inl e"
  shows "\<exists>ls. logged runScript w = ls @ [ErrorDetails e]"
proof -
  obtain r browser w1 where t: "runScriptTry w = ((r, browser), w1)"
    by (metis prod.collapse)
  have p1: "\<And>ev out. plain ev \<Longrightarrow> appendsPresentRow (ev, out)" by (rule appendsPresentRow_plain)
  have p2: "\<And>sid r row out. presentRow row \<Longrightarrow> appendsPresentRow (Append sid r row, out)" by simp
  from runScriptTry_shape [where P = appendsPresentRow, OF p1 p2 t] obtain ls where
    c: "console w1 = console w @ ls" by blast
  have r: "r = Inl e" using assms t by simp
  have "console (snd (runScript w)) = console w @ (ls @ [ErrorDetails e])"
    using t r c
    by (cases browser)
       (simp_all add: runScript_def then_finally_def closeBrowser_def ret_def console_log_def
          request_def advance_def split: option.splits)
  then have "logged runScript w = ls @ [ErrorDetails e]" by (rule logged_append)
  then show ?thesis by blast
qed

text \<open>
  Claim C10, amended.  An error thrown inside the \<^verbatim>\<open>try\<close> block of \<^verbatim>\<open>runScript\<close>
  (authentication, launch, page creation, navigation, scraping, metric fetch, append)
  never reaches the caller: it is caught, logged as the last line of the run, and
  swallowed, and nothing is tried again, since the browser is launched at most once.  The
  invocation ends without raising unless \<^verbatim>\<open>browser.close()\<close> in the \<^verbatim>\<open>finally\<close> block is
  itself rejected; that rejection is the only error that can reach the caller.
\<close>

theorem runScript_swallows_errors:
  "(fst (runScript w) = Inr () \<or>
      (\<exists>b e. fst (runScript w) = Inl e \<and> emitted runScript w \<noteq> [] \<and>
              last (emitted runScript w) = (Close b, Some e))) \<and>
   (\<forall>e. fst (fst (runScriptTry w)) = Inl e \<longrightarrow>
        logged runScript w \<noteq> [] \<and> last (logged runScript w) = ErrorDetails e) \<and>
   length (filter (\<lambda>e. fst e = Launch) (emitted runScript w)) \<le> 1"
proof -
  let ?P = "\<lambda>e. fst e \<noteq> Launch"
  have p1: "\<And>ev out. plain ev \<Longrightarrow> ?P (ev, out)" by (simp add: fst_Launch_plain)
  have p2: "\<And>sid r row out. presentRow row \<Longrightarrow> ?P (Append sid r row, out)" by simp
  note shape = runScript_shape [where P = ?P, OF p1 p2, of w]
  have a: "fst (runScript w) = Inr () \<or>
      (\<exists>b e. fst (runScript w) = Inl e \<and> emitted runScript w \<noteq> [] \<and>
              last (emitted runScript w) = (Close b, Some e))"
    using shape by (auto split: option.splits)
  have b: "length (filter (\<lambda>e. fst e = Launch) (emitted runScript w)) \<le> 1"
    using shape by (auto simp: no_Launch)
  have c: "\<forall>e. fst (fst (runScriptTry w)) = Inl e \<longrightarrow>
        logged runScript w \<noteq> [] \<and> last (logged runScript w) = ErrorDetails e"
    using runScript_logs_error [of w] by auto
  from a b c show ?thesis by simp
qed

text \<open>Opening the first page is rejected: the error is logged and \<^verbatim>\<open>runScript\<close> returns.\<close>

theorem runScript_swallows_errors_witness:
  "fst (fst (runScriptTry (rejecting [1]))) = Inl (Rejected ''rejected'') \<and>
   fst (runScript (rejecting [1])) = Inr () \<and>
   last (logged runScript (rejecting [1])) = ErrorDetails (Rejected ''rejected'')"
proof -
  have t: "fst (fst (runScriptTry (rejecting [1]))) = Inl (Rejected ''rejected'')"
    by (simp add: io_defs local_defs example_defs)
  have r: "fst (runScript (rejecting [1])) = Inr ()"
    by (simp add: io_defs local_defs example_defs)
  from runScript_swallows_errors [of "rejecting [1]"] t r show ?thesis by simp
qed

text \<open>The claim as it is written lets no error through at all.  When opening the first
  page is rejected and then closing the browser (request 3) is rejected too, the
  rejection of \<^verbatim>\<open>close\<close> leaves \<^verbatim>\<open>runScript\<close>.\<close>

theorem runScript_close_rejected:
  "fst (runScript (rejecting [1, 3])) = Inl (Rejected ''rejected'') \<and>
   emitted runScript (rejecting [1, 3]) =
     [(Launch, None), (NewPage 0, Some (Rejected ''rejected'')), (NewPage 0, None),
      (Close 0, Some (Rejected ''rejected''))]"
  by (simp add: emitted_def io_defs local_defs example_defs)

subsection \<open>The metric fetcher\<close>

text \<open>
  Claim C7.  For the networks \<^verbatim>\<open>chronos\<close> and \<^verbatim>\<open>mainnet\<close>, \<^verbatim>\<open>getSpacePledgedData\<close> makes
  two requests, the connection and the query.  When either of them is rejected, the
  function throws that same error to its caller; when both are answered, it returns the
  value the query gave.
\<close>

theorem getSpacePledgedData_rethrows:
  assumes "network = ''chronos'' \<or> network = ''mainnet''"
  shows "(\<forall>e. fault w (tick w) = Some e \<longrightarrow> fst (getSpacePledgedData network w) = Inl e) \<and>
         (\<forall>e. fault w (tick w) = None \<and> fault w (Suc (tick w)) = Some e \<longrightarrow>
              fst (getSpacePledgedData network w) = Inl e) \<and>
         (fault w (tick w) = None \<and> fault w (Suc (tick w)) = None \<longrightarrow>
              fst (getSpacePledgedData network w) = Inr (pledged w (Suc (tick w))))"
  using assms by (auto simp: getSpacePledgedData_def io_defs)

theorem getSpacePledgedData_rethrows_witness:
  "fst (getSpacePledgedData ''chronos'' (rejecting [1])) = Inl (Rejected ''rejected'') \<and>
   fst (getSpacePledgedData ''mainnet'' (rejecting [0])) = Inl (Rejected ''rejected'') \<and>
   fst (getSpacePledgedData ''mainnet'' quietWorld) = Inr (Str ''12345'')"
proof -
  have a: "fault (rejecting [1]) (tick (rejecting [1])) = None \<and>
           fault (rejecting [1]) (Suc (tick (rejecting [1]))) = Some (Rejected ''rejected'')"
    by (simp add: example_defs)
  have b: "fault (rejecting [0]) (tick (rejecting [0])) = Some (Rejected ''rejected'')"
    by (simp add: example_defs)
  have c: "fault quietWorld (tick quietWorld) = None \<and>
           fault quietWorld (Suc (tick quietWorld)) = None \<and>
           pledged quietWorld (Suc (tick quietWorld)) = Str ''12345''"
    by (simp add: example_defs)
  from getSpacePledgedData_rethrows [of "''chronos''" "rejecting [1]"]
    getSpacePledgedData_rethrows [of "''mainnet''" "rejecting [0]"]
    getSpacePledgedData_rethrows [of "''mainnet''" quietWorld] a b c
  show ?thesis by simp
qed

text \<open>
  Claim C9.  For a network identifier other than \<^verbatim>\<open>chronos\<close> and \<^verbatim>\<open>mainnet\<close>,
  \<^verbatim>\<open>getSpacePledgedData\<close> returns \<^verbatim>\<open>undefined\<close>; it raises nothing and makes no request:
  the world is left as it was.
\<close>

theorem getSpacePledgedData_other_network:
  assumes "network \<noteq> ''chronos''" and "network \<noteq> ''mainnet''"
  shows "getSpacePledgedData network w = (Inr Undefined, w)"
  using assms by (simp add: getSpacePledgedData_def io_defs)

theorem getSpacePledgedData_other_network_witness:
  "getSpacePledgedData ''taurus'' (rejecting [0]) = (Inr Undefined, rejecting [0])"
  using getSpacePledgedData_other_network [of "''taurus''" "rejecting [0]"] by simp

subsection \<open>Whole runs on the full page\<close>

text \<open>The two whole runs on the full page end with these rows in the trace.\<close>

lemma runScript_quietWorld:
  "fst (runScript quietWorld) = Inr () \<and>
   filter (\<lambda>e. \<not> plain (fst e)) (emitted runScript quietWorld) =
     [(Launch, None),
      (Append (Str ''sheet'') ''Chronos''
         [Str ''2024-01-01T00:00:00.000Z'', Number (Num 120), Str ''12345'', Number (Num 100),
          Number (Num 20), Number (Num 90), Number (Num 25), Number (Num 5)], None),
      (Append (Str ''sheet'') ''mainnet''
         [Str ''2024-01-01T00:00:00.000Z'', Number (Num 120), Str ''12345'', Number (Num 100),
          Number (Num 20), Number (Num 90), Number (Num 25), Number (Num 5)], None),
      (Close 0, None)]"
  by (simp add: emitted_def io_defs local_defs example_defs page_defs clickLoop.simps)

lemma handler_quietWorld:
  "fst (handler hourlyRequest quietWorld) = Inr (Some okResponse) \<and>
   filter (\<lambda>e. \<not> plain (fst e)) (emitted (handler hourlyRequest) quietWorld) =
     [(Launch, None),
      (Append (Str ''sheet'') ''Sheet1''
         [Str ''2024-01-01T00:00:00.000Z'', Number (Num 120), Str ''12345'', Number (Num 100),
          Number (Num 20), Number (Num 90), Number (Num 25), Number (Num 5)], None),
      (Close 1, None)]"
  by (simp add: emitted_def io_defs serverless_defs example_defs page_defs
      runWithRetry_from.simps)

subsection \<open>The click loop\<close>

lemma clickLoop_once:
  assumes "fault w (tick w) = None"
  shows "clickLoop page networkName 0 w =
         (Inr True, w\<lparr>tick := Suc (tick w), trace := trace w @ [(EvaluateClick page, None)]\<rparr>)"
  using assms by (simp add: clickLoop_answered)




lemma tick_plus:
  "n + 2 = Suc (Suc n)" "n + 3 = Suc (Suc (Suc n))" "n + 4 = Suc (Suc (Suc (Suc n)))"
  "n + 5 = Suc (Suc (Suc (Suc (Suc n))))" "n + 6 = Suc (Suc (Suc (Suc (Suc (Suc n)))))"
  by simp_all





subsection \<open>The appended row\<close>







subsection \<open>Failed lookups\<close>

lemma waitForElement_result:
  "fst (waitForElement page selector w) = Inr (fault w (tick w) = None)"
  by (simp add: waitForElement_def io_defs split: option.splits)

lemma parseInt_null: "parseIntOf None = NaN"
  by (simp add: page_defs)

text \<open>In the page function of the local script a failed lookup of one of the five other
  fields goes through \<^verbatim>\<open>parseInt(null)\<close>.\<close>

lemma local_failed_lookup_is_NaN:
  "querySelector d subspaceSelector = None \<Longrightarrow>
     subspaceNodeCount (extractStats_local d) = Number NaN"
  "querySelector d spaceAcresSelector = None \<Longrightarrow>
     spaceAcresNodeCount (extractStats_local d) = Number NaN"
  "xpathFirst d linuxXPath = None \<Longrightarrow> linuxNodeCount (extractStats_local d) = Number NaN"
  "xpathFirst d windowsXPath = None \<Longrightarrow> windowsNodeCount (extractStats_local d) = Number NaN"
  "xpathFirst d macosXPath = None \<Longrightarrow> macosNodeCount (extractStats_local d) = Number NaN"
  by (simp_all add: extractStats_local_def getTextBySelector_def getTextByXPath_def parseInt_null)

lemma scrape_after_marker_timeout:
  assumes "fault w (tick w) = None" and "fault w (tick w + 1) = Some e"
    and "fault w (tick w + 2) = None" and "fault w (tick w + 3) = None"
    and "fault w (tick w + 4) = None"
  shows "fst (scrapePageData page url networkName w) =
           Inr (transferStats (transfer w) (extractStats_local (dom w (tick w + 4)))) \<and>
         logged (scrapePageData page url networkName) w =
           [TimeoutWaitingForSelector markerSelector, ChainSelectorNotFound networkName]"
proof -
  let ?w = "w\<lparr>console := console w @ [TimeoutWaitingForSelector markerSelector,
                 ChainSelectorNotFound networkName],
               tick := Suc (Suc (Suc (tick w))),
               trace := trace w @ [(Goto page url, None), (WaitForSelector page markerSelector, Some e),
                 (Sleep 10000, None), (Screenshot page (networkName @ ''_debug.png''), None)]\<rparr>"
  have c: "fault ?w (tick ?w) = None"
    using assms by (simp add: tick_plus)
  show ?thesis
    using assms clickLoop_once [OF c, of page networkName]
    by (simp add: scrapePageData_def waitForElement_def evaluateStats_def io_defs logged_def
        tick_plus split: option.splits)
qed

subsection \<open>What a scrape returns\<close>

lemma steady_ret: "steady (ret x)"
  by (simp add: steady_def ret_def)

lemma steady_console_log: "steady (console_log msg)"
  by (simp add: steady_def console_log_def)

lemma steady_sleep: "steady (sleep ms)"
  by (simp add: steady_def sleep_def)

lemma steady_request: "steady (request ev answer)"
  by (simp add: steady_def request_def advance_def split: option.splits)

lemma steady_and_then:
  assumes "steady m" and "\<And>x. steady (f x)"
  shows "steady (and_then m f)"
  unfolding steady_def
proof
  fix w
  obtain r w1 where mw: "m w = (r, w1)" by (cases "m w")
  then have s1: "dom w1 = dom w \<and> transfer w1 = transfer w"
    using assms(1) unfolding steady_def by (metis snd_conv)
  show "dom (snd (and_then m f w)) = dom w \<and> transfer (snd (and_then m f w)) = transfer w"
  proof (cases r)
    case (Inl e)
    then show ?thesis using mw s1 by (simp add: and_then_def)
  next
    case (Inr x)
    from assms(2) [of x] have "dom (snd (f x w1)) = dom w1 \<and> transfer (snd (f x w1)) = transfer w1"
      unfolding steady_def by blast
    then show ?thesis using mw s1 Inr by (simp add: and_then_def)
  qed
qed

lemma steady_waitForElement: "steady (waitForElement page selector)"
  by (simp add: steady_def waitForElement_def io_defs split: option.splits)

lemma steady_if: "steady a \<Longrightarrow> steady b \<Longrightarrow> steady (if c then a else b)"
  by simp

lemma steady_clickLoop: "steady (clickLoop page networkName i)"
  unfolding steady_def
proof
  fix w
  show "dom (snd (clickLoop page networkName i w)) = dom w \<and>
        transfer (snd (clickLoop page networkName i w)) = transfer w"
  proof (induction "3 - i" arbitrary: i w)
    case 0
    then show ?case by (simp add: clickLoop_done)
  next
    case (Suc n)
    then have lt: "i < 3" and n: "n = 3 - (i + 1)" by simp_all
    show ?case
    proof (cases "fault w (tick w)")
      case None
      then show ?thesis using lt by (simp add: clickLoop_answered)
    next
      case (Some e)
      let ?w2 = "w\<lparr>tick := Suc (tick w),
              console := console w @ [ClickAttemptFailed networkName (i + 1)],
              trace := trace w @ [(EvaluateClick page, Some e), (Sleep 2000, None)]\<rparr>"
      from Suc.hyps(1) [OF n, of ?w2] clickLoop_rejected [OF lt Some, of page networkName]
      show ?thesis by simp
    qed
  qed
qed

lemma returnsSnapshot_evaluateStats: "returnsSnapshot f (evaluateStats page f)"
  by (simp add: returnsSnapshot_def pageRead_def evaluateStats_def request_def advance_def
      split: option.splits)

lemma returnsSnapshot_and_then:
  assumes "steady m" and "\<And>x. returnsSnapshot f (g x)"
  shows "returnsSnapshot f (and_then m g)"
  unfolding returnsSnapshot_def
proof (intro allI impI)
  fix w st
  assume r: "fst (and_then m g w) = Inr st"
  obtain r1 w1 where mw: "m w = (r1, w1)" by (cases "m w")
  then have s1: "dom w1 = dom w" "transfer w1 = transfer w"
    using assms(1) unfolding steady_def by (metis snd_conv)+
  from r mw obtain x where x: "r1 = Inr x" by (cases r1) (simp_all add: and_then_def)
  then have eq: "and_then m g w = g x w1" using mw by (simp add: and_then_def)
  with r have "fst (g x w1) = Inr st" by simp
  with assms(2) [of x] have "st = transferStats (transfer w1) (f (pageRead (g x) w1))"
    unfolding returnsSnapshot_def by blast
  then show "st = transferStats (transfer w) (f (pageRead (and_then m g) w))"
    using s1 eq by (simp add: pageRead_def)
qed

lemma returnsSnapshot_scrapePageData:
  "returnsSnapshot extractStats_local (scrapePageData page url networkName)"
  unfolding scrapePageData_def
  by (intro returnsSnapshot_and_then returnsSnapshot_evaluateStats steady_request
      steady_waitForElement steady_if steady_console_log steady_ret steady_sleep
      steady_clickLoop)

lemma isCountOrNull_transfer:
  "isCountOrNull (jsonTransfer Null)" "isCountOrNull (jsonTransfer (Number x))"
  by (cases x; simp)+

lemma returned_local:
  "nullWhereNotFound d (transferStats jsonTransfer (extractStats_local d))"
  "countsOrNull (transferStats jsonTransfer (extractStats_local d))"
  by (simp_all add: nullWhereNotFound_def countsOrNull_def transferStats_def
      extractStats_local_def readNodeCount_def getTextBySelector_def getTextByXPath_def
      parseInt_null isCountOrNull_transfer split: option.splits)

lemma returned_serverless:
  "nullWhereNotFound d (transferStats jsonTransfer (extractStats_serverless d))"
  "countsOrNull (transferStats jsonTransfer (extractStats_serverless d))"
  by (simp_all add: nullWhereNotFound_def countsOrNull_def transferStats_def
      extractStats_serverless_def readNodeCount_def getTextBySelector_def getTextByXPath_def
      parseOrNull_def isCountOrNull_transfer split: option.splits)

text \<open>
  Claim C3, amended.  Let \<^verbatim>\<open>page.evaluate\<close> hand over the snapshot as the browser library
  does.  The wait for the marker never raises: \<^verbatim>\<open>waitForElement\<close> returns whether the wait
  was answered.  When the marker does not appear in time, the miss is logged and
  \<^verbatim>\<open>scrapePageData\<close> goes on; with its other requests answered it returns a snapshot.  In
  every snapshot that a scrape returns, in the local script and in the serverless
  handler, each field whose lookup found no element on the page that was read is \<^verbatim>\<open>null\<close>,
  and every field is \<^verbatim>\<open>null\<close> or an integer, never another placeholder.  So a page on
  which no lookup finds anything gives a snapshot whose fields are all \<^verbatim>\<open>null\<close>.
\<close>

theorem failed_lookup_is_absent:
  assumes "transfer w = jsonTransfer"
  shows "fst (waitForElement page selector w) = Inr (fault w (tick w) = None) \<and>
   (\<forall>st. fst (scrapePageData page url networkName w) = Inr st \<longrightarrow>
      nullWhereNotFound (pageRead (scrapePageData page url networkName) w) st \<and>
      countsOrNull st) \<and>
   (\<forall>st. fst (evaluateStats page extractStats_serverless w) = Inr st \<longrightarrow>
      nullWhereNotFound (dom w (tick w)) st \<and> countsOrNull st) \<and>
   (\<forall>e. fault w (tick w) = None \<and> fault w (tick w + 1) = Some e \<and> fault w (tick w + 2) = None \<and>
        fault w (tick w + 3) = None \<and> fault w (tick w + 4) = None \<longrightarrow>
      fst (scrapePageData page url networkName w) =
        Inr (transferStats jsonTransfer (extractStats_local (dom w (tick w + 4)))) \<and>
      logged (scrapePageData page url networkName) w =
        [TimeoutWaitingForSelector markerSelector, ChainSelectorNotFound networkName])"
proof -
  have a: "\<forall>st. fst (scrapePageData page url networkName w) = Inr st \<longrightarrow>
      nullWhereNotFound (pageRead (scrapePageData page url networkName) w) st \<and>
      countsOrNull st"
  proof (intro allI impI)
    fix st
    assume "fst (scrapePageData page url networkName w) = Inr st"
    with returnsSnapshot_scrapePageData [of page url networkName]
    have "st = transferStats (transfer w)
                 (extractStats_local (pageRead (scrapePageData page url networkName) w))"
      unfolding returnsSnapshot_def by blast
    with assms have "st = transferStats jsonTransfer
                 (extractStats_local (pageRead (scrapePageData page url networkName) w))"
      by simp
    then show "nullWhereNotFound (pageRead (scrapePageData page url networkName) w) st \<and>
      countsOrNull st"
      using returned_local by simp
  qed
  have b: "\<forall>st. fst (evaluateStats page extractStats_serverless w) = Inr st \<longrightarrow>
      nullWhereNotFound (dom w (tick w)) st \<and> countsOrNull st"
  proof (intro allI impI)
    fix st
    assume "fst (evaluateStats page extractStats_serverless w) = Inr st"
    then have "st = transferStats jsonTransfer (extractStats_serverless (dom w (tick w)))"
      using assms by (simp add: evaluateStats_def request_def split: option.splits)
    then show "nullWhereNotFound (dom w (tick w)) st \<and> countsOrNull st"
      using returned_serverless by simp
  qed
  have c: "\<forall>e. fault w (tick w) = None \<and> fault w (tick w + 1) = Some e \<and> fault w (tick w + 2) = None \<and>
        fault w (tick w + 3) = None \<and> fault w (tick w + 4) = None \<longrightarrow>
      fst (scrapePageData page url networkName w) =
        Inr (transferStats jsonTransfer (extractStats_local (dom w (tick w + 4)))) \<and>
      logged (scrapePageData page url networkName) w =
        [TimeoutWaitingForSelector markerSelector, ChainSelectorNotFound networkName]"
    using scrape_after_marker_timeout [of w _ page url networkName] assms by auto
  from waitForElement_result [of page selector w] a b c show ?thesis by blast
qed

text \<open>The wait for the marker is rejected (request 1) and nothing is found on the page:
  the local scrape returns the snapshot with every field \<^verbatim>\<open>null\<close>, and so does the
  evaluation of the handler's page function on the empty page.\<close>

theorem failed_lookup_is_absent_witness:
  "transfer blankTimeoutWorld = jsonTransfer \<and>
   fst (waitForElement 1 markerSelector (rejecting [0])) = Inr False \<and>
   fst (scrapePageData 1 chronosUrl ''Chronos'' blankTimeoutWorld) =
     Inr \<lparr> nodeCount = Null, subspaceNodeCount = Null, spaceAcresNodeCount = Null,
           linuxNodeCount = Null, windowsNodeCount = Null, macosNodeCount = Null \<rparr> \<and>
   nullWhereNotFound emptyPage
     \<lparr> nodeCount = Null, subspaceNodeCount = Null, spaceAcresNodeCount = Null,
       linuxNodeCount = Null, windowsNodeCount = Null, macosNodeCount = Null \<rparr> \<and>
   fst (evaluateStats 2 extractStats_serverless blankWorld) =
     Inr \<lparr> nodeCount = Null, subspaceNodeCount = Null, spaceAcresNodeCount = Null,
           linuxNodeCount = Null, windowsNodeCount = Null, macosNodeCount = Null \<rparr>"
proof -
  let ?none = "\<lparr> nodeCount = Null, subspaceNodeCount = Null, spaceAcresNodeCount = Null,
           linuxNodeCount = Null, windowsNodeCount = Null, macosNodeCount = Null \<rparr>"
  have t: "transfer blankTimeoutWorld = jsonTransfer" "transfer (rejecting [0]) = jsonTransfer"
      "transfer blankWorld = jsonTransfer"
    by (simp_all add: example_defs)
  have f: "fault (rejecting [0]) (tick (rejecting [0])) = Some (Rejected ''rejected'')"
    by (simp add: example_defs)
  have g: "fault blankTimeoutWorld (tick blankTimeoutWorld) = None \<and>
      fault blankTimeoutWorld (tick blankTimeoutWorld + 1) = Some (Rejected ''rejected'') \<and>
      fault blankTimeoutWorld (tick blankTimeoutWorld + 2) = None \<and>
      fault blankTimeoutWorld (tick blankTimeoutWorld + 3) = None \<and>
      fault blankTimeoutWorld (tick blankTimeoutWorld + 4) = None"
    by (simp add: example_defs)
  have h: "transferStats jsonTransfer
             (extractStats_local (dom blankTimeoutWorld (tick blankTimeoutWorld + 4))) = ?none"
    by (simp add: blankTimeoutWorld_def emptyPage_def page_defs)
  have s: "fst (evaluateStats 2 extractStats_serverless blankWorld) = Inr ?none"
    by (simp add: example_defs request_def page_defs)
  have d: "dom blankWorld (tick blankWorld) = emptyPage"
    by (simp add: example_defs)
  from failed_lookup_is_absent [OF t(2), of 1 markerSelector chronosUrl "''Chronos''"] f
  have w1: "fst (waitForElement 1 markerSelector (rejecting [0])) = Inr False" by simp
  from failed_lookup_is_absent [OF t(1), of 1 markerSelector chronosUrl "''Chronos''"] g h
  have w2: "fst (scrapePageData 1 chronosUrl ''Chronos'' blankTimeoutWorld) = Inr ?none" by simp
  from failed_lookup_is_absent [OF t(3), of 2 markerSelector chronosUrl "''Chronos''"] s d
  have w3: "nullWhereNotFound emptyPage ?none" by simp
  from t(1) w1 w2 w3 s show ?thesis by simp
qed

text \<open>The claim as it is written makes every field absent once the marker has not
  appeared.  The fields are looked up one by one, each by its own selector, so on a page
  with the two tables and no selected chain the marker times out, the node count is
  \<^verbatim>\<open>null\<close>, and the five other fields hold their counts.\<close>

theorem marker_timeout_fields_present:
  "querySelector unselectedPage markerSelector = None \<and>
   logged (scrapePageData 1 chronosUrl ''Chronos'') unselectedWorld =
     [TimeoutWaitingForSelector markerSelector, ChainSelectorNotFound ''Chronos''] \<and>
   fst (scrapePageData 1 chronosUrl ''Chronos'' unselectedWorld) =
     Inr \<lparr> nodeCount = Null, subspaceNodeCount = Number (Num 100),
           spaceAcresNodeCount = Number (Num 20), linuxNodeCount = Number (Num 90),
           windowsNodeCount = Number (Num 25), macosNodeCount = Number (Num 5) \<rparr>"
  by (simp add: logged_def io_defs local_defs example_defs page_defs clickLoop.simps)

end
